theory Spec2Isabelle
  imports Complex_Main "HOL-Library.AList" "HOL-Library.Product_Lexorder"
begin

section \<open>JavaScript values\<close>

text \<open>
  The query builder of \<^verbatim>\<open>src/services/query.js\<close> works on JSON-shaped data: the
  raw config, the base descriptor and the filters are trees of objects, arrays and
  primitives; the only other values it stores are the model handles it reads from the
  registry. A handle is a Sequelize model class, that is a function: opaque here, and
  named by a number.

  Numbers are the finite ones, with exact arithmetic (a double agrees with it wherever
  the result is representable, as for integers below \<open>2^53\<close>); \<^verbatim>\<open>NaN\<close> and the
  infinities are not values of the model. An object is the list of its own properties in
  insertion order, the first binding of a key being the one that counts. Properties
  inherited from a prototype are not part of the model.
\<close>

type_synonym handle = nat

datatype jsval =
    JUndef
  | JNull
  | JBool bool
  | JNum real
  | JStr string
  | JArr "jsval list"
  | JObj "(string \<times> jsval) list"
  | JModel handle

type_synonym obj = "(string \<times> jsval) list"

datatype error =
    TypeError            \<comment> \<open>thrown by the JavaScript runtime\<close>
  | TranslationFailure   \<comment> \<open>thrown by the filter translator\<close>
  | OutsideModel         \<comment> \<open>the call leaves JSON-shaped data (see \<open>merge\<close>)\<close>

text \<open>\<^verbatim>\<open>o.k\<close> on a plain object: the value of the property, \<^verbatim>\<open>undefined\<close> when absent.\<close>

definition get :: "obj \<Rightarrow> string \<Rightarrow> jsval" where
  "get ob k = (case map_of ob k of None \<Rightarrow> JUndef | Some v \<Rightarrow> v)"

text \<open>\<^verbatim>\<open>o.k = v\<close>: an existing property keeps its place, a new one goes last.\<close>

definition put :: "string \<Rightarrow> jsval \<Rightarrow> obj \<Rightarrow> obj" where
  "put k v ob = AList.update k v ob"

text \<open>Truthiness, as \<^verbatim>\<open>if (v)\<close>, \<^verbatim>\<open>v && w\<close> and \<^verbatim>\<open>v ? a : b\<close> read it.\<close>

fun truthy :: "jsval \<Rightarrow> bool" where
  "truthy JUndef = False"
| "truthy JNull = False"
| "truthy (JBool b) = b"
| "truthy (JNum r) = (r \<noteq> 0)"
| "truthy (JStr s) = (s \<noteq> [])"
| "truthy (JArr xs) = True"
| "truthy (JObj kvs) = True"
| "truthy (JModel h) = True"

text \<open>\<^verbatim>\<open>v ?? w\<close> takes \<open>w\<close> exactly when \<open>v\<close> is \<^verbatim>\<open>null\<close> or \<^verbatim>\<open>undefined\<close>.\<close>

fun nullish :: "jsval \<Rightarrow> bool" where
  "nullish JUndef = True"
| "nullish JNull = True"
| "nullish v = False"

definition coalesce :: "jsval \<Rightarrow> jsval \<Rightarrow> jsval" where
  "coalesce v w = (if nullish v then w else v)"

section \<open>The query specification\<close>

text \<open>
  The filter translator \<^verbatim>\<open>JsonQuerySequelize.toQuery\<close> is a module of its own
  (\<^verbatim>\<open>src/adapters\<close>) and is not modelled. Every function that reaches it takes it
  as its first argument: a function from a filter expression to a predicate tree, or
  to the failure it throws.
\<close>

type_synonym translator = "jsval \<Rightarrow> error + jsval"

text \<open>
  The registry is what the \<^verbatim>\<open>getModels\<close> callback returns. \<open>None\<close> is
  \<^verbatim>\<open>null\<close>, which the default callback \<^verbatim>\<open>() => null\<close> returns; otherwise it is the
  lookup \<^verbatim>\<open>models[key]\<close> of the registry object, \<open>None\<close> for a key that has no
  (truthy) entry.
\<close>

type_synonym registry = "jsval \<Rightarrow> handle option"

record JsonQuery =
  models :: "registry option"
  page :: real
  perPage :: real
  isAllPage :: bool
  orderBy :: "jsval list"
  expands :: "jsval list"
  attributes :: "jsval list"
  filter_jq :: jsval
  additionalFilter :: jsval

definition validateAttributes :: "'a \<Rightarrow> 'a" where
  "validateAttributes attrs = attrs"

definition parseWhere :: "translator \<Rightarrow> jsval \<Rightarrow> error + jsval" where
  "parseWhere toQuery conditions = toQuery conditions"

text \<open>The field initialisers of the class (lines 31-77).\<close>

definition class_fields :: JsonQuery where
  "class_fields = \<lparr> models = None, page = 1, perPage = 20, isAllPage = False,
              orderBy = [], expands = [], attributes = [],
              filter_jq = JObj [], additionalFilter = JObj [] \<rparr>"

text \<open>
  The constructor (lines 85-97), on a plain-object config. Each field is kept when it has
  the expected type and left at its initial value otherwise; the two filters go through
  the translator, whose failure is the only way the constructor can throw.
\<close>

definition constructor :: "translator \<Rightarrow> obj \<Rightarrow> registry option \<Rightarrow> error + JsonQuery" where
  "constructor toQuery config getModels =
     (case parseWhere toQuery (coalesce (get config ''filter'') (JObj [])) of
        Inl e \<Rightarrow> Inl e
      | Inr f \<Rightarrow>
     (case parseWhere toQuery (coalesce (get config ''additionalFilter'') (JObj [])) of
        Inl e \<Rightarrow> Inl e
      | Inr af \<Rightarrow>
        Inr \<lparr> models = getModels,
              page = (case get config ''page'' of
                        JNum r \<Rightarrow> if r > 0 then r else page class_fields
                      | _ \<Rightarrow> page class_fields),
              perPage = (case get config ''perPage'' of
                        JNum r \<Rightarrow> if r > 0 then r else perPage class_fields
                      | _ \<Rightarrow> perPage class_fields),
              isAllPage = (case get config ''allPage'' of
                        JBool b \<Rightarrow> b
                      | _ \<Rightarrow> isAllPage class_fields),
              orderBy = (case get config ''orderBy'' of
                        JArr xs \<Rightarrow> xs
                      | _ \<Rightarrow> orderBy class_fields),
              expands = (case get config ''expands'' of
                        JArr xs \<Rightarrow> xs
                      | _ \<Rightarrow> expands class_fields),
              attributes = (case get config ''attributes'' of
                        JArr xs \<Rightarrow> validateAttributes xs
                      | _ \<Rightarrow> attributes class_fields),
              filter_jq = f,
              additionalFilter = af \<rparr>))"

definition getOffset :: "JsonQuery \<Rightarrow> real" where
  "getOffset q = (page q - 1) * perPage q"


section \<open>The order resolver\<close>

text \<open>\<^verbatim>\<open>_.trim(s, chars)\<close>: the characters of \<open>chars\<close> are removed from both ends.\<close>

definition trim_chars :: "string \<Rightarrow> string \<Rightarrow> string" where
  "trim_chars chars s =
     rev (dropWhile (\<lambda>c. c \<in> set chars) (rev (dropWhile (\<lambda>c. c \<in> set chars) s)))"

text \<open>\<^verbatim>\<open>s.split(c)\<close>: the pieces between the separators, one piece for a string without any.\<close>

fun split_on :: "char \<Rightarrow> string \<Rightarrow> string list" where
  "split_on c [] = [[]]"
| "split_on c (x # xs) =
     (if x = c then [] # split_on c xs
      else (case split_on c xs of
              [] \<Rightarrow> [[x]]
            | w # ws \<Rightarrow> (x # w) # ws))"

text \<open>
  The body of the \<^verbatim>\<open>map\<close> callback of \<^verbatim>\<open>getOrderBy\<close> (lines 119-136) for one
  token. Reading \<^verbatim>\<open>models[...]\<close> throws when the callback returned \<^verbatim>\<open>null\<close>.
\<close>

definition orderTerm :: "registry option \<Rightarrow> string \<Rightarrow> error + jsval" where
  "orderTerm mdls query =
     (let directionDesc = (take 1 query = ''-'');
          isRelatedColumn = (CHR ''$'' \<in> set query);
          orderQuery = trim_chars ''$-'' query;
          orderSplit = split_on CHR ''.'' orderQuery;
          column = (case orderSplit of
                      [] \<Rightarrow> []
                    | [s0] \<Rightarrow> s0
                    | s0 # s1 # rest \<Rightarrow> s1);
          key = (case orderSplit of [] \<Rightarrow> JUndef | s0 # rest \<Rightarrow> JStr s0);
          result = (if directionDesc then [JStr column, JStr ''DESC'']
                    else [JStr column, JStr ''ASC''])
      in case mdls of
           None \<Rightarrow> Inl TypeError
         | Some reg \<Rightarrow>
             (case reg key of
                Some relation \<Rightarrow>
                  if isRelatedColumn
                  then Inr (JArr (JObj [(''model'', JModel relation), (''as'', key)] # result))
                  else Inr (JArr result)
              | None \<Rightarrow> Inr (JArr result)))"

text \<open>A loop body that may throw, run over a list: the first failure ends the loop.\<close>

primrec each :: "('a \<Rightarrow> error + 'b) \<Rightarrow> 'a list \<Rightarrow> error + 'b list" where
  "each f [] = Inr []"
| "each f (x # xs) =
     (case f x of
        Inl e \<Rightarrow> Inl e
      | Inr y \<Rightarrow> (case each f xs of Inl e \<Rightarrow> Inl e | Inr ys \<Rightarrow> Inr (y # ys)))"

text \<open>The tokens that pass \<^verbatim>\<open>typeof s === 'string' && s !== ''\<close>, in order.\<close>

fun tokens :: "jsval list \<Rightarrow> string list" where
  "tokens [] = []"
| "tokens (JStr s # vs) = (if s \<noteq> [] then s # tokens vs else tokens vs)"
| "tokens (v # vs) = tokens vs"

text \<open>
  \<^verbatim>\<open>getOrderBy(field)\<close>: \<open>field\<close> is \<open>JUndef\<close> when the argument is left out. A truthy
  \<open>field\<close> that is not an array has no \<^verbatim>\<open>filter\<close> method.
\<close>

definition getOrderBy :: "JsonQuery \<Rightarrow> jsval \<Rightarrow> error + jsval list" where
  "getOrderBy q field =
     (case (if truthy field then field else JArr (orderBy q)) of
        JArr fs \<Rightarrow> each (orderTerm (models q)) (tokens fs)
      | _ \<Rightarrow> Inl TypeError)"

section \<open>The expand resolver\<close>

text \<open>
  One round of the \<^verbatim>\<open>forEach\<close> of \<^verbatim>\<open>getInclude\<close> (lines 179-201): the entries it
  pushes, none or one. \<^verbatim>\<open>typeof null\<close> is \<^verbatim>\<open>'object'\<close>, and destructuring
  \<^verbatim>\<open>null\<close> throws; an array has none of the destructured properties.
\<close>

definition includeEntry :: "translator \<Rightarrow> JsonQuery \<Rightarrow> jsval \<Rightarrow> error + jsval list" where
  "includeEntry toQuery q expand =
     (case expand of
        JStr s \<Rightarrow> Inr [JStr s]
      | JNull \<Rightarrow> Inl TypeError
      | JObj e \<Rightarrow>
          (let name = get e ''name''; modelName = get e ''modelName'';
               whr = get e ''where''; required = get e ''required'';
               limit = get e ''limit''; separate = get e ''separate'';
               order = get e ''order''; attrs = get e ''attributes''
           in if \<not> truthy name then Inr []
              else (case models q of
                 None \<Rightarrow> Inl TypeError
               | Some reg \<Rightarrow>
                  if reg name = None \<and> reg modelName = None then Inr []
                  else
                   (case (if truthy order
                          then map_sum id (\<lambda>ts. [(''order'', JArr ts)]) (getOrderBy q order)
                          else Inr []) of
                      Inl err \<Rightarrow> Inl err
                    | Inr orderPart \<Rightarrow>
                   (case (if truthy whr
                          then map_sum id (\<lambda>w. [(''where'', w)]) (parseWhere toQuery whr)
                          else Inr []) of
                      Inl err \<Rightarrow> Inl err
                    | Inr wherePart \<Rightarrow>
                      Inr [JObj
                        ([(''model'', JModel (case reg modelName of
                                               Some m \<Rightarrow> m
                                             | None \<Rightarrow> the (reg name))),
                          (''as'', name)]
                         @ (case required of JBool b \<Rightarrow> [(''required'', required)] | _ \<Rightarrow> [])
                         @ (case limit of JNum n \<Rightarrow> [(''limit'', limit)] | _ \<Rightarrow> [])
                         @ (case separate of JBool b \<Rightarrow> [(''separate'', separate)] | _ \<Rightarrow> [])
                         @ orderPart
                         @ (if truthy attrs
                            then [(''attributes'', validateAttributes attrs)] else [])
                         @ wherePart)]))))
      | _ \<Rightarrow> Inr [])"

definition getInclude :: "translator \<Rightarrow> JsonQuery \<Rightarrow> error + jsval list" where
  "getInclude toQuery q = map_sum id concat (each (includeEntry toQuery q) (expands q))"

section \<open>Lodash merge\<close>

text \<open>
  \<^verbatim>\<open>_.merge(object, source)\<close> walks the properties of \<open>source\<close>. A source value that is
  an array or a plain object is merged recursively into the value \<open>object\<close> has under
  the same key, or into a new empty array or object when that value is of another kind;
  any other source value is assigned, except that \<^verbatim>\<open>undefined\<close> never replaces an
  existing property. Array elements are properties keyed by their index.

  Two situations leave JSON-shaped data and end in \<open>OutsideModel\<close>: a plain object
  merged into an array (the array would get named properties), and an array merged
  into an object with a numeric \<^verbatim>\<open>length\<close> (lodash copies such an object into an
  array first).

  \<open>merge_value ov s\<close> is the new value of a property whose source value is \<open>s\<close>; \<open>ov\<close>
  is its old value, \<open>None\<close> when \<open>object\<close> does not have the property.
\<close>

definition isLength :: "jsval \<Rightarrow> bool" where
  "isLength v = (case v of
                   JNum r \<Rightarrow> 0 \<le> r \<and> r \<le> 9007199254740991 \<and> r = of_int \<lfloor>r\<rfloor>
                 | _ \<Rightarrow> False)"

fun merge_value :: "jsval option \<Rightarrow> jsval \<Rightarrow> error + jsval"
  and merge_obj :: "obj \<Rightarrow> obj \<Rightarrow> error + obj"
  and merge_arr :: "jsval list \<Rightarrow> jsval list \<Rightarrow> error + jsval list"
where
  "merge_value ov (JArr ss) =
     (case ov of
        Some (JArr xs) \<Rightarrow> map_sum id JArr (merge_arr xs ss)
      | Some (JObj kvs) \<Rightarrow>
          if isLength (get kvs ''length'') then Inl OutsideModel
          else map_sum id JArr (merge_arr [] ss)
      | _ \<Rightarrow> map_sum id JArr (merge_arr [] ss))"
| "merge_value ov (JObj skvs) =
     (case ov of
        Some (JObj okvs) \<Rightarrow> map_sum id JObj (merge_obj okvs skvs)
      | Some (JArr xs) \<Rightarrow> Inl OutsideModel
      | _ \<Rightarrow> map_sum id JObj (merge_obj [] skvs))"
| "merge_value ov JUndef = (case ov of None \<Rightarrow> Inr JUndef | Some v \<Rightarrow> Inr v)"
| "merge_value ov JNull = Inr JNull"
| "merge_value ov (JBool b) = Inr (JBool b)"
| "merge_value ov (JNum r) = Inr (JNum r)"
| "merge_value ov (JStr s) = Inr (JStr s)"
| "merge_value ov (JModel h) = Inr (JModel h)"
| "merge_obj okvs [] = Inr okvs"
| "merge_obj okvs ((k, s) # rest) =
     (case merge_value (map_of okvs k) s of
        Inl e \<Rightarrow> Inl e
      | Inr v \<Rightarrow> merge_obj (put k v okvs) rest)"
| "merge_arr xs [] = Inr xs"
| "merge_arr [] (s # ss) =
     (case merge_value None s of
        Inl e \<Rightarrow> Inl e
      | Inr v \<Rightarrow> (case merge_arr [] ss of Inl e \<Rightarrow> Inl e | Inr vs \<Rightarrow> Inr (v # vs)))"
| "merge_arr (x # xs) (s # ss) =
     (case merge_value (Some x) s of
        Inl e \<Rightarrow> Inl e
      | Inr v \<Rightarrow> (case merge_arr xs ss of Inl e \<Rightarrow> Inl e | Inr vs \<Rightarrow> Inr (v # vs)))"

text \<open>
  The call \<^verbatim>\<open>_.merge(object, source)\<close> itself, for the shapes the model covers: an
  array into an array, a plain object into a plain object.
\<close>

definition merge :: "jsval \<Rightarrow> jsval \<Rightarrow> error + jsval" where
  "merge object source =
     (case (object, source) of
        (JArr xs, JArr ss) \<Rightarrow> map_sum id JArr (merge_arr xs ss)
      | (JObj okvs, JObj skvs) \<Rightarrow> map_sum id JObj (merge_obj okvs skvs)
      | _ \<Rightarrow> Inl OutsideModel)"

section \<open>The descriptor assembler\<close>

text \<open>
  \<^verbatim>\<open>getQuery(queryConfig, isOne)\<close> (lines 214-242) assigns to the properties of
  \<^verbatim>\<open>queryConfig\<close> one after the other. \<open>getQuery\<close> is that sequence of assignments on
  the contents of the object: it takes the properties \<^verbatim>\<open>queryConfig\<close> has on entry and
  returns those it has when the method returns. Each \<^verbatim>\<open>_.merge\<close> call writes into
  the value the property already has, or into a new \<^verbatim>\<open>[]\<close> or \<^verbatim>\<open>{}\<close> when it has
  none, and the assignment stores that same value back.
\<close>

definition getQuery :: "translator \<Rightarrow> JsonQuery \<Rightarrow> obj \<Rightarrow> bool \<Rightarrow> error + obj" where
  "getQuery toQuery q queryConfig isOne =
     (let qc1 =
        (if \<not> isAllPage q
         then (let qo = put ''offset''
                          (if isOne then JNull
                           else coalesce (get queryConfig ''offset'') (JNum (getOffset q)))
                          queryConfig
               in put ''limit''
                    (if isOne then JNull
                     else coalesce (get qo ''limit'') (JNum (perPage q)))
                    qo)
         else queryConfig)
      in
      case (if isOne then Inr JNull
            else if nullish (get qc1 ''order'')
                 then map_sum id JArr (getOrderBy q JUndef)
                 else Inr (get qc1 ''order'')) of
        Inl e \<Rightarrow> Inl e
      | Inr ord \<Rightarrow>
      let qc2 = put ''order'' ord qc1 in
      case getInclude toQuery q of
        Inl e \<Rightarrow> Inl e
      | Inr inc \<Rightarrow>
      case merge (coalesce (get qc2 ''include'') (JArr [])) (JArr inc) of
        Inl e \<Rightarrow> Inl e
      | Inr merged \<Rightarrow>
      let qc3 = put ''include'' merged qc2 in
      case merge (coalesce (get qc3 ''attributes'') (JArr [])) (JArr (attributes q)) of
        Inl e \<Rightarrow> Inl e
      | Inr attrs \<Rightarrow>
      let qc4 = (if attrs \<noteq> JArr [] then put ''attributes'' attrs qc3 else qc3) in
      case (if truthy (filter_jq q)
            then map_sum id (\<lambda>w. put ''where'' w qc4)
                   (merge (coalesce (get qc4 ''where'') (JObj []))
                          (JObj [(''$and'', filter_jq q)]))
            else Inr qc4) of
        Inl e \<Rightarrow> Inl e
      | Inr qc5 \<Rightarrow>
      if truthy (additionalFilter q)
      then map_sum id (\<lambda>w. put ''where'' w qc5)
             (merge (coalesce (get qc5 ''where'') (JObj []))
                    (JObj [(''$and'', additionalFilter q)]))
      else Inr qc5)"

text \<open>\<^verbatim>\<open>toJSON()\<close> is \<^verbatim>\<open>getQuery()\<close> with both defaults, on a new empty object.\<close>

definition toJSON :: "translator \<Rightarrow> JsonQuery \<Rightarrow> error + obj" where
  "toJSON toQuery q = getQuery toQuery q [] False"


section \<open>The connection singleton\<close>

text \<open>
  \<^verbatim>\<open>src/services/baseDb.js\<close>. The class keeps one connection in the static field
  \<^verbatim>\<open>instance\<close>. \<^verbatim>\<open>prepare\<close> is asynchronous; the model runs it from start to end
  without interleaving. What lies outside the class is taken as given: the DNS resolver
  is a function from a name to the SRV records found or to the failure reported, and
  the callbacks the caller passes in are functions whose calls are recorded in a trace
  (\<^verbatim>\<open>initModel\<close> always returns a model; \<^verbatim>\<open>associate\<close> resolves or rejects).
\<close>

record srv_address =
  srv_name :: string
  srv_port :: real
  srv_priority :: nat
  srv_weight :: nat

type_synonym resolver = "string \<Rightarrow> error + srv_address list"

text \<open>\<^verbatim>\<open>s.endsWith(suffix)\<close>.\<close>

definition endsWith :: "string \<Rightarrow> string \<Rightarrow> bool" where
  "endsWith s suf = (length suf \<le> length s \<and> drop (length s - length suf) s = suf)"

text \<open>
  \<^verbatim>\<open>_resolveSrv\<close> (lines 179-193): nothing is looked up for an empty name; the records
  come back sorted by priority, then weight.
\<close>

definition resolveSrv :: "resolver \<Rightarrow> string \<Rightarrow> error + srv_address list" where
  "resolveSrv dns srv =
     (if srv = [] then Inr []
      else map_sum id (sort_key (\<lambda>a. (srv_priority a, srv_weight a))) (dns srv))"

text \<open>The first and the second element that array destructuring reads.\<close>

definition first :: "string list \<Rightarrow> string option" where
  "first xs = (case xs of [] \<Rightarrow> None | x # _ \<Rightarrow> Some x)"

definition second :: "string list \<Rightarrow> string option" where
  "second xs = (case xs of x # y # _ \<Rightarrow> Some y | _ \<Rightarrow> None)"

text \<open>A destructured string as a value and as a condition: absent is \<^verbatim>\<open>undefined\<close>.\<close>

definition str_val :: "string option \<Rightarrow> jsval" where
  "str_val s = (case s of None \<Rightarrow> JUndef | Some x \<Rightarrow> JStr x)"

definition str_or :: "string option \<Rightarrow> string \<Rightarrow> string" where
  "str_or s d = (case s of None \<Rightarrow> d | Some x \<Rightarrow> if x = [] then d else x)"

text \<open>One entry of a plain \<^verbatim>\<open>slaveHost\<close> list (lines 109-128).\<close>

definition replica :: "string \<Rightarrow> jsval" where
  "replica h =
     (let creds = split_on CHR ''@'' h;
          replicaCredentials = first creds;
          replicaHostAndPort = second creds;
          hostPort = split_on CHR '':''
                       (str_or replicaHostAndPort (str_or replicaCredentials []));
          replicaHost = first hostPort;
          replicaPort = second hostPort;
          userPass = split_on CHR '':'' (str_or replicaCredentials []);
          replicaUsername = first userPass;
          replicaPassword = second userPass
      in JObj ([(''host'', str_val replicaHost)]
               @ (if truthy (str_val replicaPort)
                  then [(''port'', str_val replicaPort)] else [])
               @ (if truthy (str_val replicaUsername)
                  then [(''username'', str_val replicaUsername)] else [])
               @ (if truthy (str_val replicaPassword)
                  then [(''password'', str_val replicaPassword)] else [])))"

text \<open>
  \<^verbatim>\<open>handleSRV\<close> (lines 98-169) on a plain-object config. \<^verbatim>\<open>endsWith\<close> is a method
  of strings only, and \<^verbatim>\<open>masters.shift()\<close> of an empty list is \<^verbatim>\<open>undefined\<close>, whose
  \<^verbatim>\<open>name\<close> cannot be read.
\<close>

definition handleSRV :: "resolver \<Rightarrow> obj \<Rightarrow> error + obj" where
  "handleSRV dns config =
     (let host = get config ''host'';
          port = get config ''port'';
          slaveHost = get config ''slaveHost'';
          newConfig = filter (\<lambda>kv. fst kv \<notin> {''host'', ''port'', ''slaveHost''}) config
      in
      case (if truthy slaveHost
            then (case slaveHost of
                    JStr sh \<Rightarrow>
                      if \<not> endsWith sh ''.srv''
                      then Inr (map replica (split_on CHR '','' sh))
                      else map_sum id
                             (map (\<lambda>address. JObj [(''host'', JStr (srv_name address)),
                                                   (''port'', JNum (srv_port address))]))
                             (resolveSrv dns sh)
                  | _ \<Rightarrow> Inl TypeError)
            else Inr []) of
        Inl e \<Rightarrow> Inl e
      | Inr read \<Rightarrow>
          (case host of
             JStr h \<Rightarrow>
               if \<not> endsWith h ''.srv''
               then if \<not> truthy slaveHost then Inr config
                    else Inr (put ''replication''
                                (JObj [(''read'', JArr read),
                                       (''write'', JObj [(''host'', host), (''port'', port)])])
                                newConfig)
               else (case resolveSrv dns h of
                       Inl e \<Rightarrow> Inl e
                     | Inr masters \<Rightarrow>
                         (case masters of
                            [] \<Rightarrow> Inl TypeError
                          | master # rest \<Rightarrow>
                              Inr (put ''replication''
                                     (JObj [(''read'', JArr read),
                                            (''write'',
                                             JObj [(''host'', JStr (srv_name master)),
                                                   (''port'', JNum (srv_port master))])])
                                     newConfig)))
           | _ \<Rightarrow> Inl TypeError))"

text \<open>
  A model, as \<^verbatim>\<open>prepare\<close> uses it: its handle, and the two optional callbacks.
  \<^verbatim>\<open>associate\<close> is given the registered models, here their names and handles, and
  either resolves (\<open>True\<close>) or rejects; \<^verbatim>\<open>insertDefault\<close> is not called by
  \<^verbatim>\<open>prepare\<close>, only handed back, and is named by a number.
\<close>

record dbmodel =
  handle_of :: handle
  associate :: "((string \<times> handle) list \<Rightarrow> bool) option"
  insertDefault :: "nat option"

type_synonym initModel = "jsval \<Rightarrow> jsval \<Rightarrow> jsval \<Rightarrow> dbmodel"

record connection =
  db :: jsval
  models_c :: "(string \<times> handle) list"
  config_c :: obj

datatype event = InitModel string | Associate string

text \<open>
  The state \<^verbatim>\<open>prepare\<close> works on: the static field \<^verbatim>\<open>instance\<close> (\<open>None\<close> is
  \<^verbatim>\<open>null\<close>) and the calls made to the caller's callbacks so far.
\<close>

record world =
  instance_w :: "connection option"
  trace :: "event list"

text \<open>
  \<^verbatim>\<open>getInstance\<close> (lines 202-216). The instance is stored before the schema is
  normalised, so it stays when \<^verbatim>\<open>replace\<close> turns out not to be a method of the
  schema.
\<close>

definition getInstance :: "obj \<Rightarrow> world \<Rightarrow> (error + connection) \<times> world" where
  "getInstance config w =
     (case instance_w w of
        Some c \<Rightarrow> (Inr c, w)
      | None \<Rightarrow>
          (let fresh = \<lparr> db = JNull, models_c = [], config_c = [] \<rparr>;
               schema = (case get config ''define'' of
                           JObj define \<Rightarrow> get define ''schema''
                         | _ \<Rightarrow> JUndef)
           in if truthy schema
              then (case schema of
                      JStr s \<Rightarrow>
                        (let config' = put ''define''
                               (JObj (put ''schema''
                                        (JStr (map (\<lambda>c. if c = CHR ''-'' then CHR ''_'' else c) s))
                                        (case get config ''define'' of
                                           JObj define \<Rightarrow> define | _ \<Rightarrow> [])))
                               config;
                             c = fresh\<lparr> config_c := config', db := JObj [] \<rparr>
                         in (Inr c, w\<lparr> instance_w := Some c \<rparr>))
                    | _ \<Rightarrow> (Inl TypeError, w\<lparr> instance_w := Some fresh \<rparr>))
              else (let c = fresh\<lparr> config_c := config, db := JObj [] \<rparr>
                    in (Inr c, w\<lparr> instance_w := Some c \<rparr>))))"

text \<open>\<^verbatim>\<open>addModel\<close> (lines 255-259) on the instance.\<close>

definition addModel :: "string \<Rightarrow> handle \<Rightarrow> connection \<Rightarrow> connection" where
  "addModel nm model c = c\<lparr> models_c := AList.update nm model (models_c c) \<rparr>"

text \<open>
  The \<^verbatim>\<open>forEach\<close> of \<^verbatim>\<open>prepare\<close> (lines 58-70): each model is created and
  registered, and its callbacks are collected.
\<close>

fun createModels ::
  "(string \<times> initModel) list \<Rightarrow> jsval \<Rightarrow> connection \<Rightarrow> event list \<Rightarrow>
     connection \<times> event list \<times> (string \<times> ((string \<times> handle) list \<Rightarrow> bool)) list \<times> nat list"
where
  "createModels [] modelConfig c tr = (c, tr, [], [])"
| "createModels ((nm, initModel) # rest) modelConfig c tr =
     (let model = initModel (db c) (JObj []) modelConfig;
          c' = addModel nm (handle_of model) c;
          (c'', tr', associations, insertDefaults) =
             createModels rest modelConfig c' (tr @ [InitModel nm])
      in (c'', tr',
          (case associate model of None \<Rightarrow> [] | Some f \<Rightarrow> [(nm, f)]) @ associations,
          (case insertDefault model of None \<Rightarrow> [] | Some i \<Rightarrow> [i]) @ insertDefaults))"

text \<open>
  The loop over the associations (lines 73-75): \<open>True\<close> when every callback
  resolved; the first rejection ends the loop.
\<close>

fun createRelations ::
  "(string \<times> ((string \<times> handle) list \<Rightarrow> bool)) list \<Rightarrow> (string \<times> handle) list \<Rightarrow>
     event list \<Rightarrow> bool \<times> event list"
where
  "createRelations [] ms tr = (True, tr)"
| "createRelations ((nm, asoc) # rest) ms tr =
     (if asoc ms then createRelations rest ms (tr @ [Associate nm])
      else (False, tr @ [Associate nm]))"

text \<open>
  What \<^verbatim>\<open>prepare\<close> resolves to: \<^verbatim>\<open>false\<close>, or the database with the collected
  \<^verbatim>\<open>insertDefault\<close> callbacks; or what it rejects with.
\<close>

datatype prepared = AlreadyPrepared | Prepared jsval "nat list"

datatype failure = Thrown error | AssociationRejected

definition prepare ::
  "resolver \<Rightarrow> (string \<times> initModel) list \<Rightarrow> obj \<Rightarrow> jsval \<Rightarrow> world \<Rightarrow>
     (failure + prepared) \<times> world"
where
  "prepare dns initModels config modelConfig w =
     (if instance_w w \<noteq> None then (Inr AlreadyPrepared, w)
      else case handleSRV dns config of
        Inl e \<Rightarrow> (Inl (Thrown e), w)
      | Inr handledConfig \<Rightarrow>
          (case getInstance handledConfig w of
             (Inl e, w1) \<Rightarrow> (Inl (Thrown e), w1)
           | (Inr connection, w1) \<Rightarrow>
               (let (c, tr, associations, insertDefaults) =
                      createModels initModels modelConfig connection (trace w1);
                    (resolved, tr') = createRelations associations (models_c c) tr;
                    w2 = \<lparr> instance_w = Some c, trace = tr' \<rparr>
                in if resolved then (Inr (Prepared (db c) insertDefaults), w2)
                   else (Inl AssociationRejected, w2))))"

section \<open>Properties of the constructor\<close>

lemma pos_int_ge_one: "(r::real) \<in> \<int> \<Longrightarrow> 0 < r \<Longrightarrow> 1 \<le> r"
  by (auto elim!: Ints_cases)

lemma class_fields_simps:
  "models class_fields = None" "page class_fields = 1" "perPage class_fields = 20"
  "isAllPage class_fields = False" "orderBy class_fields = []" "expands class_fields = []"
  "attributes class_fields = []" "filter_jq class_fields = JObj []"
  "additionalFilter class_fields = JObj []"
  by (simp_all add: class_fields_def)

lemma constructor_Inr:
  assumes "constructor toQuery config getModels = Inr q"
  shows "page q = (case get config ''page'' of
                     JNum r \<Rightarrow> if 0 < r then r else page class_fields
                   | _ \<Rightarrow> page class_fields)"
    and "perPage q = (case get config ''perPage'' of
                     JNum r \<Rightarrow> if 0 < r then r else perPage class_fields
                   | _ \<Rightarrow> perPage class_fields)"
  using assms by (auto simp: constructor_def split: sum.splits)

text \<open>
  Claim C7, as the code has it. The constructor throws only when the translator does, so
  a bad \<^verbatim>\<open>page\<close> or \<^verbatim>\<open>perPage\<close> raises nothing. In the specification it builds, both
  are positive: a supplied number greater than 0 is kept as it is, anything else is
  replaced by 1 and by 20. They are at least 1 when the supplied numbers are integers.
  The offset is \<open>(page - 1) * perPage\<close>.
\<close>

theorem constructor_page_perPage:
  "((\<exists>q. constructor toQuery config getModels = Inr q) \<longleftrightarrow>
      (\<exists>f af. toQuery (coalesce (get config ''filter'') (JObj [])) = Inr f
             \<and> toQuery (coalesce (get config ''additionalFilter'') (JObj [])) = Inr af))
   \<and> (\<forall>q. constructor toQuery config getModels = Inr q \<longrightarrow>
        0 < page q \<and> 0 < perPage q
        \<and> (\<forall>r. get config ''page'' = JNum r \<and> 0 < r \<longrightarrow> page q = r)
        \<and> ((\<forall>r. get config ''page'' = JNum r \<longrightarrow> r \<le> 0) \<longrightarrow> page q = 1)
        \<and> (\<forall>r. get config ''perPage'' = JNum r \<and> 0 < r \<longrightarrow> perPage q = r)
        \<and> ((\<forall>r. get config ''perPage'' = JNum r \<longrightarrow> r \<le> 0) \<longrightarrow> perPage q = 20)
        \<and> ((\<forall>r. get config ''page'' = JNum r \<longrightarrow> r \<in> \<int>) \<longrightarrow> 1 \<le> page q)
        \<and> ((\<forall>r. get config ''perPage'' = JNum r \<longrightarrow> r \<in> \<int>) \<longrightarrow> 1 \<le> perPage q)
        \<and> getOffset q = (page q - 1) * perPage q)"
proof (intro conjI allI impI)
  show "(\<exists>q. constructor toQuery config getModels = Inr q) \<longleftrightarrow>
      (\<exists>f af. toQuery (coalesce (get config ''filter'') (JObj [])) = Inr f
             \<and> toQuery (coalesce (get config ''additionalFilter'') (JObj [])) = Inr af)"
    by (auto simp: constructor_def parseWhere_def split: sum.splits)
next
  fix q assume c: "constructor toQuery config getModels = Inr q"
  note pg = constructor_Inr(1)[OF c] and pp = constructor_Inr(2)[OF c]
  show "0 < page q" by (simp add: pg class_fields_simps split: jsval.split)
  show "0 < perPage q" by (simp add: pp class_fields_simps split: jsval.split)
  show "page q = r" if "get config ''page'' = JNum r \<and> 0 < r" for r
    using that by (simp add: pg)
  show "perPage q = r" if "get config ''perPage'' = JNum r \<and> 0 < r" for r
    using that by (simp add: pp)
  show "page q = 1" if "\<forall>r. get config ''page'' = JNum r \<longrightarrow> r \<le> 0"
    using that by (auto simp add: pg class_fields_simps split: jsval.split)
  show "perPage q = 20" if "\<forall>r. get config ''perPage'' = JNum r \<longrightarrow> r \<le> 0"
    using that by (auto simp add: pp class_fields_simps split: jsval.split)
  show "1 \<le> page q" if "\<forall>r. get config ''page'' = JNum r \<longrightarrow> r \<in> \<int>"
    using that by (auto simp add: pg class_fields_simps pos_int_ge_one split: jsval.split)
  show "1 \<le> perPage q" if "\<forall>r. get config ''perPage'' = JNum r \<longrightarrow> r \<in> \<int>"
    using that by (auto simp add: pp class_fields_simps pos_int_ge_one split: jsval.split)
  show "getOffset q = (page q - 1) * perPage q" by (simp add: getOffset_def)
qed

theorem constructor_page_perPage_witness:
  "constructor Inr [(''page'', JNum 3), (''perPage'', JNum 10)] None
     = Inr (class_fields\<lparr>page := 3, perPage := 10\<rparr>)
   \<and> getOffset (class_fields\<lparr>page := 3, perPage := 10\<rparr>) = 20
   \<and> constructor Inr [(''page'', JNum (-2)), (''perPage'', JStr ''10'')] None
     = Inr class_fields
   \<and> page class_fields = 1 \<and> perPage class_fields = 20 \<and> getOffset class_fields = 0
   \<and> toJSON Inr class_fields
     = Inr [(''offset'', JNum 0), (''limit'', JNum 20), (''order'', JArr []),
            (''include'', JArr []), (''where'', JObj [(''$and'', JObj [])])]"
proof -
  let ?c1 = "[(''page'', JNum 3), (''perPage'', JNum 10)]"
  let ?c2 = "[(''page'', JNum (-2)), (''perPage'', JStr ''10'')]"
  have c1: "constructor Inr ?c1 None = Inr (class_fields\<lparr>page := 3, perPage := 10\<rparr>)"
    by (simp add: constructor_def parseWhere_def get_def coalesce_def class_fields_def)
  have c2: "constructor Inr ?c2 None = Inr class_fields"
    by (simp add: constructor_def parseWhere_def get_def coalesce_def class_fields_def)
  have g1: "get ?c1 ''page'' = JNum 3" "get ?c1 ''perPage'' = JNum 10"
    and g2: "get ?c2 ''page'' = JNum (-2)" "get ?c2 ''perPage'' = JStr ''10''"
    by (simp_all add: get_def)
  from constructor_page_perPage [of Inr ?c1 None] c1 g1
  have "getOffset (class_fields\<lparr>page := 3, perPage := 10\<rparr>) = 20"
    by simp
  moreover from constructor_page_perPage [of Inr ?c2 None] c2 g2
  have "page class_fields = 1 \<and> perPage class_fields = 20 \<and> getOffset class_fields = 0"
    by simp
  moreover have "toJSON Inr class_fields
     = Inr [(''offset'', JNum 0), (''limit'', JNum 20), (''order'', JArr []),
            (''include'', JArr []), (''where'', JObj [(''$and'', JObj [])])]"
    by (simp add: toJSON_def getQuery_def class_fields_def getOffset_def get_def put_def
        coalesce_def getOrderBy_def getInclude_def merge_def)
  ultimately show ?thesis using c1 c2 by simp
qed

text \<open>
  The guard is \<^verbatim>\<open>config.page > 0\<close>: the page \<open>1/2\<close> passes it and is kept, so
  \<open>page \<ge> 1\<close> does not hold for every raw config.
\<close>

theorem constructor_fractional_page:
  "constructor Inr [(''page'', JNum (1/2))] None = Inr (class_fields\<lparr>page := 1/2\<rparr>)
   \<and> \<not> 1 \<le> page (class_fields\<lparr>page := 1/2\<rparr>)"
  by (simp add: constructor_def parseWhere_def get_def coalesce_def class_fields_def validateAttributes_def)

section \<open>Properties of the order resolver\<close>








text \<open>
  All of this is about a \<^verbatim>\<open>JsonQuery\<close> that was given a registry. One built without
  \<^verbatim>\<open>getModels\<close> has the default callback, which returns \<^verbatim>\<open>null\<close>; reading
  \<^verbatim>\<open>models[...]\<close> then throws at the first token.
\<close>

lemma getOrderBy_without_registry:
  "constructor Inr [(''orderBy'', JArr [JStr ''age''])] None
     = Inr (class_fields\<lparr>orderBy := [JStr ''age'']\<rparr>)
   \<and> getOrderBy (class_fields\<lparr>orderBy := [JStr ''age'']\<rparr>) JUndef = Inl TypeError"
  by (simp add: getOrderBy_def orderTerm_def trim_chars_def class_fields_def Let_def
      constructor_def parseWhere_def get_def coalesce_def)

section \<open>Properties of the descriptor assembler\<close>

lemma map_of_put: "map_of (put k v ob) k' = (if k' = k then Some v else map_of ob k')"
  by (simp add: put_def update_conv')

lemma get_put: "get (put k v ob) k' = (if k' = k then v else get ob k')"
  by (simp add: get_def map_of_put)

lemma map_sum_id_Inr: "map_sum id f x = Inr y \<longleftrightarrow> (\<exists>w. x = Inr w \<and> y = f w)"
  by (cases x) auto

lemma getQuery_untouched:
  assumes "getQuery toQuery q qc isOne = Inr d"
    and "k \<notin> {''order'', ''include'', ''attributes'', ''where''}"
    and "isAllPage q \<or> k \<notin> {''offset'', ''limit''}"
  shows "map_of d k = map_of qc k"
  using assms unfolding getQuery_def Let_def
  by (auto simp: map_of_put map_sum_id_Inr split: sum.splits if_splits)

lemma getQuery_pagination:
  assumes "getQuery toQuery q qc isOne = Inr d" and "\<not> isAllPage q"
  shows "map_of d ''offset'' =
           Some (if isOne then JNull else coalesce (get qc ''offset'') (JNum (getOffset q)))"
    and "map_of d ''limit'' =
           Some (if isOne then JNull else coalesce (get qc ''limit'') (JNum (perPage q)))"
  using assms unfolding getQuery_def Let_def
  by (auto simp: map_of_put get_put map_sum_id_Inr split: sum.splits if_splits)

lemma getQuery_order:
  assumes "getQuery toQuery q qc isOne = Inr d"
  shows "map_of d ''order'' =
           Some (if isOne then JNull
                 else if nullish (get qc ''order'')
                      then JArr (projr (getOrderBy q JUndef)) else get qc ''order'')"
  using assms unfolding getQuery_def Let_def
  by (auto simp: map_of_put get_put map_sum_id_Inr split: sum.splits if_splits)

text \<open>
  Claim C6. When \<^verbatim>\<open>isAllPage\<close> is set, the descriptor assembled from no base
  descriptor, singleton-fetch off, has neither an \<^verbatim>\<open>offset\<close> nor a \<^verbatim>\<open>limit\<close>
  property, whatever \<^verbatim>\<open>page\<close> and \<^verbatim>\<open>perPage\<close> are.
\<close>

theorem getQuery_allPage_no_pagination:
  assumes "isAllPage q" and "getQuery toQuery q [] False = Inr d"
  shows "''offset'' \<notin> fst ` set d \<and> ''limit'' \<notin> fst ` set d"
proof -
  have "map_of d ''offset'' = map_of [] ''offset''" "map_of d ''limit'' = map_of [] ''limit''"
    using assms by (simp_all add: getQuery_untouched)
  then show ?thesis
    by (simp add: map_of_eq_None_iff)
qed

theorem getQuery_allPage_no_pagination_witness:
  "isAllPage (class_fields\<lparr>isAllPage := True, page := 3, perPage := 10\<rparr>)
   \<and> getQuery Inr (class_fields\<lparr>isAllPage := True, page := 3, perPage := 10\<rparr>) [] False
     = Inr [(''order'', JArr []), (''include'', JArr []),
            (''where'', JObj [(''$and'', JObj [])])]
   \<and> ''offset'' \<notin> fst ` set [(''order'', JArr []), (''include'', JArr []),
                                 (''where'', JObj [(''$and'', JObj [])])]
   \<and> ''limit'' \<notin> fst ` set [(''order'', JArr []), (''include'', JArr []),
                                (''where'', JObj [(''$and'', JObj [])])]"
proof -
  let ?q = "class_fields\<lparr>isAllPage := True, page := 3, perPage := 10\<rparr>"
  have a: "isAllPage ?q" by simp
  have g: "getQuery Inr ?q [] False
     = Inr [(''order'', JArr []), (''include'', JArr []),
            (''where'', JObj [(''$and'', JObj [])])]"
    by (simp add: getQuery_def class_fields_def get_def put_def coalesce_def
        getOrderBy_def getInclude_def merge_def)
  from getQuery_allPage_no_pagination [OF a g] a g show ?thesis
    by blast
qed

text \<open>
  Claim C2, as the code has it. In singleton-fetch mode \<^verbatim>\<open>order\<close> is always
  \<^verbatim>\<open>null\<close>. \<^verbatim>\<open>offset\<close> and \<^verbatim>\<open>limit\<close> are \<^verbatim>\<open>null\<close> when \<^verbatim>\<open>isAllPage\<close> is
  off; when it is on, the two assignments are skipped and both properties are as the
  base descriptor had them, present or not.
\<close>

theorem getQuery_isOne:
  assumes "getQuery toQuery q queryConfig True = Inr d"
  shows "map_of d ''order'' = Some JNull
     \<and> (\<not> isAllPage q \<longrightarrow>
          map_of d ''offset'' = Some JNull \<and> map_of d ''limit'' = Some JNull)
     \<and> (isAllPage q \<longrightarrow>
          map_of d ''offset'' = map_of queryConfig ''offset''
          \<and> map_of d ''limit'' = map_of queryConfig ''limit'')"
proof (intro conjI impI)
  show "map_of d ''order'' = Some JNull"
    using getQuery_order [OF assms] by simp
  show "map_of d ''offset'' = Some JNull" if "\<not> isAllPage q"
    using getQuery_pagination(1) [OF assms that] by simp
  show "map_of d ''limit'' = Some JNull" if "\<not> isAllPage q"
    using getQuery_pagination(2) [OF assms that] by simp
  show "map_of d ''offset'' = map_of queryConfig ''offset''" if "isAllPage q"
    using that by (simp add: getQuery_untouched [OF assms])
  show "map_of d ''limit'' = map_of queryConfig ''limit''" if "isAllPage q"
    using that by (simp add: getQuery_untouched [OF assms])
qed

theorem getQuery_isOne_witness:
  "getQuery Inr (class_fields\<lparr>orderBy := [JStr ''-age''], models := Some Map.empty\<rparr>)
     [(''offset'', JNum 40), (''order'', JArr [JArr [JStr ''id'', JStr ''ASC'']])] True
     = Inr [(''offset'', JNull), (''order'', JNull), (''limit'', JNull),
            (''include'', JArr []), (''where'', JObj [(''$and'', JObj [])])]
   \<and> \<not> isAllPage (class_fields\<lparr>orderBy := [JStr ''-age''], models := Some Map.empty\<rparr>)
   \<and> map_of [(''offset'', JNull), (''order'', JNull), (''limit'', JNull),
              (''include'', JArr []), (''where'', JObj [(''$and'', JObj [])])] ''order''
     = Some JNull
   \<and> map_of [(''offset'', JNull), (''order'', JNull), (''limit'', JNull),
              (''include'', JArr []), (''where'', JObj [(''$and'', JObj [])])] ''offset''
     = Some JNull
   \<and> map_of [(''offset'', JNull), (''order'', JNull), (''limit'', JNull),
              (''include'', JArr []), (''where'', JObj [(''$and'', JObj [])])] ''limit''
     = Some JNull
   \<and> getQuery Inr (class_fields\<lparr>isAllPage := True\<rparr>) [(''limit'', JNum 7)] True
     = Inr [(''limit'', JNum 7), (''order'', JNull), (''include'', JArr []),
            (''where'', JObj [(''$and'', JObj [])])]
   \<and> isAllPage (class_fields\<lparr>isAllPage := True\<rparr>)
   \<and> map_of [(''limit'', JNum 7), (''order'', JNull), (''include'', JArr []),
              (''where'', JObj [(''$and'', JObj [])])] ''limit''
     = map_of [(''limit'', JNum 7)] ''limit''"
proof -
  let ?q1 = "class_fields\<lparr>orderBy := [JStr ''-age''], models := Some Map.empty\<rparr>"
  let ?q2 = "class_fields\<lparr>isAllPage := True\<rparr>"
  have g1: "getQuery Inr ?q1
     [(''offset'', JNum 40), (''order'', JArr [JArr [JStr ''id'', JStr ''ASC'']])] True
     = Inr [(''offset'', JNull), (''order'', JNull), (''limit'', JNull),
            (''include'', JArr []), (''where'', JObj [(''$and'', JObj [])])]"
    by (simp add: getQuery_def class_fields_def get_def put_def coalesce_def
        getOrderBy_def getInclude_def merge_def)
  have g2: "getQuery Inr ?q2 [(''limit'', JNum 7)] True
     = Inr [(''limit'', JNum 7), (''order'', JNull), (''include'', JArr []),
            (''where'', JObj [(''$and'', JObj [])])]"
    by (simp add: getQuery_def class_fields_def get_def put_def coalesce_def
        getOrderBy_def getInclude_def merge_def)
  have a1: "\<not> isAllPage ?q1" and a2: "isAllPage ?q2"
    by (simp_all add: class_fields_def)
  from getQuery_isOne [OF g1] getQuery_isOne [OF g2] g1 g2 a1 a2 show ?thesis
    by blast
qed

text \<open>
  With \<^verbatim>\<open>isAllPage\<close> on, singleton-fetch leaves the \<^verbatim>\<open>offset\<close> of the base
  descriptor in place, and sets none when the base has none.
\<close>

theorem getQuery_isOne_allPage_keeps_offset:
  "getQuery Inr (class_fields\<lparr>isAllPage := True\<rparr>) [(''offset'', JNum 5)] True
     = Inr [(''offset'', JNum 5), (''order'', JNull), (''include'', JArr []),
            (''where'', JObj [(''$and'', JObj [])])]
   \<and> getQuery Inr (class_fields\<lparr>isAllPage := True\<rparr>) [] True
     = Inr [(''order'', JNull), (''include'', JArr []),
            (''where'', JObj [(''$and'', JObj [])])]"
  by (simp add: getQuery_def class_fields_def get_def put_def coalesce_def
      getOrderBy_def getInclude_def merge_def)

section \<open>Properties of the expand resolver\<close>







section \<open>Properties of the merge\<close>











section \<open>The composed filter\<close>

text \<open>
  Claim C1 fails on the code. The translator taken here returns a filter object as it
  is, a plain where-object. With the filter \<^verbatim>\<open>{a: 1}\<close> and the additional filter
  \<^verbatim>\<open>{a: 2}\<close> the second \<^verbatim>\<open>_.merge\<close> overwrites the \<^verbatim>\<open>a\<close> of the first: the
  \<^verbatim>\<open>where\<close> is \<^verbatim>\<open>{$and: {a: 2}}\<close>, the very one the filter \<^verbatim>\<open>{a: 2}\<close> gives, and
  the condition \<^verbatim>\<open>a = 1\<close> is gone. With the filter \<^verbatim>\<open>{group: [5, 6, 7]}\<close> and the
  additional filter \<^verbatim>\<open>{group: [1, 2]}\<close> the two lists are merged by index into
  \<^verbatim>\<open>[1, 2, 7]\<close>: the caller's filter has widened the list of the additional one.
\<close>

theorem getQuery_where_overwritten:
  "constructor Inr [(''filter'', JObj [(''a'', JNum 1)]),
                    (''additionalFilter'', JObj [(''a'', JNum 2)])] None
     = Inr (class_fields\<lparr>filter_jq := JObj [(''a'', JNum 1)],
                          additionalFilter := JObj [(''a'', JNum 2)]\<rparr>)
   \<and> toJSON Inr (class_fields\<lparr>filter_jq := JObj [(''a'', JNum 1)],
                               additionalFilter := JObj [(''a'', JNum 2)]\<rparr>)
     = Inr [(''offset'', JNum 0), (''limit'', JNum 20), (''order'', JArr []),
            (''include'', JArr []),
            (''where'', JObj [(''$and'', JObj [(''a'', JNum 2)])])]
   \<and> toJSON Inr (class_fields\<lparr>filter_jq := JObj [(''a'', JNum 2)],
                               additionalFilter := JObj [(''a'', JNum 2)]\<rparr>)
     = Inr [(''offset'', JNum 0), (''limit'', JNum 20), (''order'', JArr []),
            (''include'', JArr []),
            (''where'', JObj [(''$and'', JObj [(''a'', JNum 2)])])]
   \<and> toJSON Inr (class_fields\<lparr>filter_jq := JObj [(''group'', JArr [JNum 5, JNum 6, JNum 7])],
                               additionalFilter := JObj [(''group'', JArr [JNum 1, JNum 2])]\<rparr>)
     = Inr [(''offset'', JNum 0), (''limit'', JNum 20), (''order'', JArr []),
            (''include'', JArr []),
            (''where'', JObj [(''$and'', JObj [(''group'', JArr [JNum 1, JNum 2, JNum 7])])])]"
  by (simp add: constructor_def parseWhere_def toJSON_def getQuery_def class_fields_def
      get_def put_def coalesce_def getOffset_def getOrderBy_def getInclude_def merge_def)

text \<open>
  The example of the claim itself comes out as it says: the keys \<^verbatim>\<open>a\<close> and \<^verbatim>\<open>b\<close>
  differ, and both conditions are under \<^verbatim>\<open>$and\<close>.
\<close>

lemma getQuery_where_distinct_keys:
  "toJSON Inr (class_fields\<lparr>filter_jq := JObj [(''a'', JNum 1)],
                             additionalFilter := JObj [(''b'', JNum 2)]\<rparr>)
     = Inr [(''offset'', JNum 0), (''limit'', JNum 20), (''order'', JArr []),
            (''include'', JArr []),
            (''where'', JObj [(''$and'', JObj [(''a'', JNum 1), (''b'', JNum 2)])])]"
  by (simp add: toJSON_def getQuery_def class_fields_def
      get_def put_def coalesce_def getOffset_def getOrderBy_def getInclude_def merge_def)

text \<open>
  In general: when the two translated filters are objects with the one key \<open>k\<close>, and
  the additional filter has a number under it, nothing of what the filter has under
  \<open>k\<close> is left in the \<^verbatim>\<open>where\<close>.
\<close>

lemma merge_object_not_nullish:
  assumes "merge x (JObj s) = Inr w"
  shows "\<not> nullish w"
  using assms by (cases x) (auto simp: merge_def map_sum_id_Inr)

lemma getQuery_where:
  assumes "getQuery toQuery q qc isOne = Inr d"
    and "truthy (filter_jq q)" and "truthy (additionalFilter q)"
  shows "\<exists>w1 w2. merge (coalesce (get qc ''where'') (JObj []))
                         (JObj [(''$and'', filter_jq q)]) = Inr w1
           \<and> merge w1 (JObj [(''$and'', additionalFilter q)]) = Inr w2
           \<and> map_of d ''where'' = Some w2"
proof -
  have c: "coalesce w (JObj []) = w" if "merge x (JObj s) = Inr w" for x s w
    using merge_object_not_nullish [OF that] by (simp add: coalesce_def)
  from assms show ?thesis
    unfolding getQuery_def Let_def
    by (auto simp: map_of_put get_put map_sum_id_Inr c split: sum.splits if_splits)
qed

lemma getQuery_where_shared_key:
  assumes "getQuery toQuery q qc isOne = Inr d"
    and "nullish (get qc ''where'')"
    and "filter_jq q = JObj [(k, v)]"
    and "additionalFilter q = JObj [(k, JNum n)]"
  shows "map_of d ''where'' = Some (JObj [(''$and'', JObj [(k, JNum n)])])"
proof -
  from getQuery_where [OF assms(1)] assms(2-4) obtain w1 w2 where
    w1: "merge (JObj []) (JObj [(''$and'', JObj [(k, v)])]) = Inr w1"
    and w2: "merge w1 (JObj [(''$and'', JObj [(k, JNum n)])]) = Inr w2"
    and d: "map_of d ''where'' = Some w2"
    by (auto simp: coalesce_def)
  from w1 obtain v' where "w1 = JObj [(''$and'', JObj [(k, v')])]"
    by (auto simp: merge_def put_def map_sum_id_Inr split: sum.splits)
  with w2 have "w2 = JObj [(''$and'', JObj [(k, JNum n)])]"
    by (auto simp: merge_def put_def)
  with d show ?thesis
    by simp
qed


section \<open>Preparing twice\<close>

text \<open>
  Claim C10. When an instance exists, \<^verbatim>\<open>prepare\<close> resolves to \<^verbatim>\<open>false\<close> and
  leaves everything as it was: the instance with its models and configuration, and the
  trace, so that no model was created and no association callback was called.
\<close>

theorem prepare_already_prepared:
  assumes "instance_w w \<noteq> None"
  shows "prepare dns initModels config modelConfig w = (Inr AlreadyPrepared, w)"
  using assms by (simp add: prepare_def)

text \<open>
  The first call, for comparison: it stores the instance, registers the model and
  calls its \<^verbatim>\<open>associate\<close>.
\<close>

lemma prepare_first_call:
  "prepare (\<lambda>n. Inl TypeError)
     [(''post'', \<lambda>d s m. \<lparr> handle_of = 2, associate = Some (\<lambda>ms. True),
                              insertDefault = None \<rparr>)]
     [(''host'', JStr ''db'')] JNull
     \<lparr> instance_w = None, trace = [] \<rparr>
   = (Inr (Prepared (JObj []) []),
      \<lparr> instance_w = Some \<lparr> db = JObj [], models_c = [(''post'', 2)],
                            config_c = [(''host'', JStr ''db'')] \<rparr>,
        trace = [InitModel ''post'', Associate ''post''] \<rparr>)"
  by (simp add: prepare_def handleSRV_def getInstance_def addModel_def get_def endsWith_def
      Let_def)

theorem prepare_already_prepared_witness:
  "instance_w \<lparr> instance_w = Some \<lparr> db = JObj [], models_c = [(''user'', 1)],
                                   config_c = [] \<rparr>,
               trace = [InitModel ''user''] \<rparr> \<noteq> None
   \<and> prepare (\<lambda>n. Inl TypeError)
        [(''post'', \<lambda>d s m. \<lparr> handle_of = 2, associate = Some (\<lambda>ms. True),
                                 insertDefault = None \<rparr>)]
        [(''host'', JStr ''db'')] JNull
        \<lparr> instance_w = Some \<lparr> db = JObj [], models_c = [(''user'', 1)],
                              config_c = [] \<rparr>,
          trace = [InitModel ''user''] \<rparr>
     = (Inr AlreadyPrepared,
        \<lparr> instance_w = Some \<lparr> db = JObj [], models_c = [(''user'', 1)],
                              config_c = [] \<rparr>,
          trace = [InitModel ''user''] \<rparr>)"
proof -
  let ?w = "\<lparr> instance_w = Some \<lparr> db = JObj [], models_c = [(''user'', 1)],
                                  config_c = [] \<rparr>,
              trace = [InitModel ''user''] \<rparr>"
  have i: "instance_w ?w \<noteq> None"
    by simp
  from prepare_already_prepared [OF i] i show ?thesis
    by blast
qed

end
